theory Spec2Isabelle
  imports Main
begin

section \<open>Geo-replication operations of glustolibs (geo\_rep\_ops.py)\<close>

text \<open>
  Every function of the module assembles one shell command from its arguments with
  Python's \<^verbatim>\<open>%s\<close> formatting and hands it to the remote executor \<^verbatim>\<open>g\<close>
  (\<^verbatim>\<open>g.run\<close> for one host, \<^verbatim>\<open>g.run_parallel\<close> for many). Each source function
  \<^verbatim>\<open>georep_X\<close> is embedded as two constants: \<open>georep_X_cmd\<close>, the value assigned to the
  local variable \<^verbatim>\<open>cmd\<close>, and \<open>georep_X\<close>, the call of the executor on that command
  and what the function makes of the answer.
\<close>

subsection \<open>The remote executor\<close>

text \<open>
  A command result is the triple (exit status, stdout, stderr). The executor is a
  parameter: each function calls it exactly once, so whatever it answers is a function of
  the host(s) and the command. The dictionary returned by \<^verbatim>\<open>run_parallel\<close> is an
  association list in iteration order.
\<close>

type_synonym cmd_result = "int \<times> string \<times> string"

record executor =
  run :: "string \<Rightarrow> string \<Rightarrow> cmd_result"
  run_parallel :: "string list \<Rightarrow> string \<Rightarrow> (string \<times> cmd_result) list"

text \<open>An executor that answers every call with a fixed result; used for concrete runs.\<close>

definition canned_executor :: "cmd_result \<Rightarrow> (string \<times> cmd_result) list \<Rightarrow> executor" where
  "canned_executor r rs = \<lparr>run = (\<lambda>host cmd. r), run_parallel = (\<lambda>hosts cmd. rs)\<rparr>"

subsection \<open>Python primitives\<close>

text \<open>\<^verbatim>\<open>hay.startswith(needle)\<close> and the substring test \<^verbatim>\<open>needle in hay\<close>.\<close>

fun starts_with :: "string \<Rightarrow> string \<Rightarrow> bool" where
  "starts_with [] hay = True"
| "starts_with (n # ns) [] = False"
| "starts_with (n # ns) (h # hs) = (n = h \<and> starts_with ns hs)"

fun str_in :: "string \<Rightarrow> string \<Rightarrow> bool" where
  "str_in needle [] = (needle = [])"
| "str_in needle (h # hs) = (starts_with needle (h # hs) \<or> str_in needle hs)"

text \<open>
  The optional argument \<^verbatim>\<open>user=None\<close>: its truth value in \<^verbatim>\<open>if user:\<close> and its
  rendering by \<^verbatim>\<open>%s\<close>.
\<close>

fun py_truthy :: "string option \<Rightarrow> bool" where
  "py_truthy None = False"
| "py_truthy (Some u) = (u \<noteq> [])"

fun py_str :: "string option \<Rightarrow> string" where
  "py_str None = ''None''"
| "py_str (Some u) = u"

text \<open>
  An executor that exits with status 0 exactly on the commands that contain a given text,
  and echoes the command on stdout; used to observe which command a function hands over.
\<close>

definition probe_executor :: "string \<Rightarrow> executor" where
  "probe_executor needle =
     \<lparr>run = (\<lambda>host cmd. (if str_in needle cmd then 0 else 1, cmd, [])),
      run_parallel =
        (\<lambda>hosts cmd. map (\<lambda>host. (host, if str_in needle cmd then 0 else 1, cmd, [])) hosts)\<rparr>"

subsection \<open>Key material\<close>

definition georep_createpem_cmd :: string where
  "georep_createpem_cmd = ''gluster system:: execute gsec_create''"

definition georep_createpem :: "executor \<Rightarrow> string \<Rightarrow> cmd_result" where
  "georep_createpem g mnode = run g mnode georep_createpem_cmd"

definition georep_ssh_keygen_cmd :: string where
  "georep_ssh_keygen_cmd =
     ''echo -e '' @ [CHR 0x22] @ ''n'' @ [CHR 0x22] @ '' | ssh-keygen -f ~/.ssh/id_rsa -q -N ''
       @ [CHR 0x22, CHR 0x22]"

definition georep_ssh_keygen :: "executor \<Rightarrow> string \<Rightarrow> bool" where
  "georep_ssh_keygen g mnode =
     (case run g mnode georep_ssh_keygen_cmd of
        (ret, out, err) \<Rightarrow>
          if ret \<noteq> 0 \<and> \<not> str_in ''already exists'' out then False else True)"

definition georep_ssh_copyid_cmd :: "string \<Rightarrow> string \<Rightarrow> string \<Rightarrow> string" where
  "georep_ssh_copyid_cmd tonode user passwd =
     ''sshpass -p '' @ [CHR 0x22] @ passwd @ [CHR 0x22]
       @ '' ssh-copy-id -o StrictHostKeyChecking=no '' @ user @ ''@'' @ tonode"

definition georep_ssh_copyid :: "executor \<Rightarrow> string \<Rightarrow> string \<Rightarrow> string \<Rightarrow> string \<Rightarrow> bool" where
  "georep_ssh_copyid g mnode tonode user passwd =
     (case run g mnode (georep_ssh_copyid_cmd tonode user passwd) of
        (ret, out, err) \<Rightarrow> if ret \<noteq> 0 then False else True)"

subsection \<open>Fan-out provisioning\<close>

text \<open>
  The three fan-out functions fold the items of the result dictionary into the flag
  \<^verbatim>\<open>_rc\<close>; each offending host is reported with \<^verbatim>\<open>g.log.error\<close>. The loop state is
  the flag and the lines logged so far; the functions return the boolean together with
  the lines they logged.
\<close>

definition georep_groupadd_cmd :: "string \<Rightarrow> string" where
  "georep_groupadd_cmd groupname = ''groupadd '' @ groupname"

fun georep_groupadd_loop ::
  "string \<Rightarrow> (string \<times> cmd_result) list \<Rightarrow> bool \<times> string list \<Rightarrow> bool \<times> string list" where
  "georep_groupadd_loop groupname [] (rc, logged) = (rc, logged)"
| "georep_groupadd_loop groupname ((server, retcode, out, err) # rest) (rc, logged) =
     (if retcode \<noteq> 0 \<and> \<not> str_in ''already exists'' err
      then georep_groupadd_loop groupname rest
             (False, logged @ [''Unable to add group '' @ groupname @ '' on server '' @ server])
      else georep_groupadd_loop groupname rest (rc, logged))"

definition georep_groupadd :: "executor \<Rightarrow> string list \<Rightarrow> string \<Rightarrow> bool \<times> string list" where
  "georep_groupadd g servers groupname =
     (let results = run_parallel g servers (georep_groupadd_cmd groupname) in
      case georep_groupadd_loop groupname results (True, []) of
        (rc, logged) \<Rightarrow> if \<not> rc then (False, logged) else (True, logged))"

definition georep_geoaccount_cmd :: "string \<Rightarrow> string \<Rightarrow> string" where
  "georep_geoaccount_cmd groupname groupaccount =
     ''useradd -G '' @ groupname @ '' '' @ groupaccount"

fun georep_geoaccount_loop ::
  "(string \<times> cmd_result) list \<Rightarrow> bool \<times> string list \<Rightarrow> bool \<times> string list" where
  "georep_geoaccount_loop [] (rc, logged) = (rc, logged)"
| "georep_geoaccount_loop ((server, retcode, out, err) # rest) (rc, logged) =
     (if retcode \<noteq> 0 \<and> \<not> str_in ''already exists'' err
      then georep_geoaccount_loop rest (False, logged @ [''Unable to add user on '' @ server])
      else georep_geoaccount_loop rest (rc, logged))"

definition georep_geoaccount ::
  "executor \<Rightarrow> string list \<Rightarrow> string \<Rightarrow> string \<Rightarrow> bool \<times> string list" where
  "georep_geoaccount g servers groupname groupaccount =
     (let results = run_parallel g servers (georep_geoaccount_cmd groupname groupaccount) in
      case georep_geoaccount_loop results (True, []) of
        (rc, logged) \<Rightarrow> if \<not> rc then (False, logged) else (True, logged))"

definition georep_geoaccount_setpasswd_cmd :: "string \<Rightarrow> string \<Rightarrow> string" where
  "georep_geoaccount_setpasswd_cmd groupaccount passwd =
     ''echo '' @ groupaccount @ '':'' @ passwd @ '' | chpasswd''"

fun georep_geoaccount_setpasswd_loop ::
  "string \<Rightarrow> (string \<times> cmd_result) list \<Rightarrow> bool \<times> string list \<Rightarrow> bool \<times> string list" where
  "georep_geoaccount_setpasswd_loop groupaccount [] (rc, logged) = (rc, logged)"
| "georep_geoaccount_setpasswd_loop groupaccount ((server, retcode, out, err) # rest) (rc, logged) =
     (if retcode \<noteq> 0
      then georep_geoaccount_setpasswd_loop groupaccount rest
             (False,
              logged @ [''Unable to set passwd for user '' @ groupaccount @ '' on '' @ server])
      else georep_geoaccount_setpasswd_loop groupaccount rest (rc, logged))"

text \<open>The argument \<^verbatim>\<open>groupname\<close> of the password function is not used by its body.\<close>

definition georep_geoaccount_setpasswd ::
  "executor \<Rightarrow> string list \<Rightarrow> string \<Rightarrow> string \<Rightarrow> string \<Rightarrow> bool \<times> string list" where
  "georep_geoaccount_setpasswd g servers groupname groupaccount passwd =
     (let results =
            run_parallel g servers (georep_geoaccount_setpasswd_cmd groupaccount passwd) in
      case georep_geoaccount_setpasswd_loop groupaccount results (True, []) of
        (rc, logged) \<Rightarrow> if \<not> rc then (False, logged) else (True, logged))"

subsection \<open>Mountbroker and session keys\<close>

definition georep_mountbroker_setup_cmd :: "string \<Rightarrow> string \<Rightarrow> string" where
  "georep_mountbroker_setup_cmd groupname directory =
     ''gluster-mountbroker setup '' @ directory @ '' '' @ groupname"

definition georep_mountbroker_setup :: "executor \<Rightarrow> string \<Rightarrow> string \<Rightarrow> string \<Rightarrow> cmd_result" where
  "georep_mountbroker_setup g mnode groupname directory =
     run g mnode (georep_mountbroker_setup_cmd groupname directory)"

definition georep_mountbroker_adduser_cmd :: "string \<Rightarrow> string \<Rightarrow> string" where
  "georep_mountbroker_adduser_cmd slavevol useraccount =
     ''gluster-mountbroker add '' @ slavevol @ '' '' @ useraccount"

definition georep_mountbroker_adduser ::
  "executor \<Rightarrow> string \<Rightarrow> string \<Rightarrow> string \<Rightarrow> cmd_result" where
  "georep_mountbroker_adduser g mnode slavevol useraccount =
     run g mnode (georep_mountbroker_adduser_cmd slavevol useraccount)"

definition georep_mountbroker_status_cmd :: string where
  "georep_mountbroker_status_cmd = ''gluster-mountbroker status''"

definition georep_mountbroker_status :: "executor \<Rightarrow> string \<Rightarrow> cmd_result" where
  "georep_mountbroker_status g mnode = run g mnode georep_mountbroker_status_cmd"

definition georep_set_pemkeys_cmd :: "string \<Rightarrow> string \<Rightarrow> string \<Rightarrow> string" where
  "georep_set_pemkeys_cmd useraccount mastervol slavevol =
     ''/usr/libexec/glusterfs/set_geo_rep_pem_keys.sh '' @ useraccount @ '' '' @ mastervol
       @ '' '' @ slavevol"

definition georep_set_pemkeys ::
  "executor \<Rightarrow> string \<Rightarrow> string \<Rightarrow> string \<Rightarrow> string \<Rightarrow> cmd_result" where
  "georep_set_pemkeys g mnode useraccount mastervol slavevol =
     run g mnode (georep_set_pemkeys_cmd useraccount mastervol slavevol)"

subsection \<open>Session operations\<close>

definition georep_status_cmd :: "string \<Rightarrow> string \<Rightarrow> string \<Rightarrow> string option \<Rightarrow> string" where
  "georep_status_cmd mastervol slaveip slavevol user =
     (if py_truthy user
      then ''gluster volume geo-replication '' @ mastervol @ '' '' @ py_str user @ ''@''
             @ slaveip @ ''::'' @ slavevol @ '' status''
      else ''gluster volume geo-replication '' @ mastervol @ '' '' @ slaveip @ ''::''
             @ slavevol @ '' status'')"

definition georep_status ::
  "executor \<Rightarrow> string \<Rightarrow> string \<Rightarrow> string \<Rightarrow> string \<Rightarrow> string option \<Rightarrow> cmd_result" where
  "georep_status g mnode mastervol slaveip slavevol user =
     run g mnode (georep_status_cmd mastervol slaveip slavevol user)"

definition georep_create_cmd ::
  "string \<Rightarrow> string \<Rightarrow> string \<Rightarrow> string option \<Rightarrow> bool \<Rightarrow> string" where
  "georep_create_cmd mastervol slaveip slavevol user force =
     (if py_truthy user
      then (if force
            then ''gluster volume geo-replication '' @ mastervol @ '' '' @ py_str user @ ''@''
                   @ slaveip @ ''::'' @ slavevol @ '' create push-pem force''
            else ''gluster volume geo-replication '' @ mastervol @ '' '' @ py_str user @ ''@''
                   @ slaveip @ ''::'' @ slavevol @ '' create push-pem'')
      else (if force
            then ''gluster volume geo-replication '' @ mastervol @ '' '' @ slaveip @ ''::''
                   @ slavevol @ '' create push-pem force''
            else ''gluster volume geo-replication '' @ mastervol @ '' '' @ slaveip @ ''::''
                   @ slavevol @ '' create push-pem''))"

definition georep_create ::
  "executor \<Rightarrow> string \<Rightarrow> string \<Rightarrow> string \<Rightarrow> string \<Rightarrow> string option \<Rightarrow> bool \<Rightarrow> cmd_result" where
  "georep_create g mnode mastervol slaveip slavevol user force =
     run g mnode (georep_create_cmd mastervol slaveip slavevol user force)"

definition georep_config_get_cmd :: "string \<Rightarrow> string \<Rightarrow> string \<Rightarrow> string \<Rightarrow> string" where
  "georep_config_get_cmd mastervol slaveip slavevol config_key =
     ''gluster volume geo-replication '' @ mastervol @ '' '' @ slaveip @ ''::'' @ slavevol
       @ '' config '' @ config_key"

definition georep_config_get ::
  "executor \<Rightarrow> string \<Rightarrow> string \<Rightarrow> string \<Rightarrow> string \<Rightarrow> string \<Rightarrow> cmd_result" where
  "georep_config_get g mnode mastervol slaveip slavevol config_key =
     run g mnode (georep_config_get_cmd mastervol slaveip slavevol config_key)"

definition georep_config_set_cmd ::
  "string \<Rightarrow> string \<Rightarrow> string \<Rightarrow> string \<Rightarrow> string \<Rightarrow> string" where
  "georep_config_set_cmd mastervol slaveip slavevol config val =
     ''gluster volume geo-replication '' @ mastervol @ '' '' @ slaveip @ ''::'' @ slavevol
       @ '' config '' @ config @ '' '' @ val"

definition georep_config_set ::
  "executor \<Rightarrow> string \<Rightarrow> string \<Rightarrow> string \<Rightarrow> string \<Rightarrow> string \<Rightarrow> string \<Rightarrow> cmd_result" where
  "georep_config_set g mnode mastervol slaveip slavevol config val =
     run g mnode (georep_config_set_cmd mastervol slaveip slavevol config val)"

definition georep_start_cmd ::
  "string \<Rightarrow> string \<Rightarrow> string \<Rightarrow> string option \<Rightarrow> bool \<Rightarrow> string" where
  "georep_start_cmd mastervol slaveip slavevol user force =
     (if py_truthy user
      then (if force
            then ''gluster volume geo-replication '' @ mastervol @ '' '' @ py_str user @ ''@''
                   @ slaveip @ ''::'' @ slavevol @ '' start force''
            else ''gluster volume geo-replication '' @ mastervol @ '' '' @ py_str user @ ''@''
                   @ slaveip @ ''::'' @ slavevol @ '' start'')
      else (if force
            then ''gluster volume geo-replication '' @ mastervol @ '' '' @ slaveip @ ''::''
                   @ slavevol @ '' start force''
            else ''gluster volume geo-replication '' @ mastervol @ '' '' @ slaveip @ ''::''
                   @ slavevol @ '' start''))"

definition georep_start ::
  "executor \<Rightarrow> string \<Rightarrow> string \<Rightarrow> string \<Rightarrow> string \<Rightarrow> string option \<Rightarrow> bool \<Rightarrow> cmd_result" where
  "georep_start g mnode mastervol slaveip slavevol user force =
     run g mnode (georep_start_cmd mastervol slaveip slavevol user force)"

definition georep_stop_cmd ::
  "string \<Rightarrow> string \<Rightarrow> string \<Rightarrow> string option \<Rightarrow> bool \<Rightarrow> string" where
  "georep_stop_cmd mastervol slaveip slavevol user force =
     (if py_truthy user
      then (if force
            then ''gluster volume geo-replication '' @ mastervol @ '' '' @ py_str user @ ''@''
                   @ slaveip @ ''::'' @ slavevol @ '' stop force''
            else ''gluster volume geo-replication '' @ mastervol @ '' '' @ py_str user @ ''@''
                   @ slaveip @ ''::'' @ slavevol @ '' stop'')
      else (if force
            then ''gluster volume geo-replication '' @ mastervol @ '' '' @ slaveip @ ''::''
                   @ slavevol @ '' stop force''
            else ''gluster volume geo-replication '' @ mastervol @ '' '' @ slaveip @ ''::''
                   @ slavevol @ '' stop''))"

definition georep_stop ::
  "executor \<Rightarrow> string \<Rightarrow> string \<Rightarrow> string \<Rightarrow> string \<Rightarrow> string option \<Rightarrow> bool \<Rightarrow> cmd_result" where
  "georep_stop g mnode mastervol slaveip slavevol user force =
     run g mnode (georep_stop_cmd mastervol slaveip slavevol user force)"

definition georep_pause_cmd :: "string \<Rightarrow> string \<Rightarrow> string \<Rightarrow> string option \<Rightarrow> string" where
  "georep_pause_cmd mastervol slaveip slavevol user =
     (if py_truthy user
      then ''gluster volume geo-replication '' @ mastervol @ '' '' @ py_str user @ ''@''
             @ slaveip @ ''::'' @ slavevol @ '' pause''
      else ''gluster volume geo-replication '' @ mastervol @ '' '' @ slaveip @ ''::''
             @ slavevol @ '' pause'')"

definition georep_pause ::
  "executor \<Rightarrow> string \<Rightarrow> string \<Rightarrow> string \<Rightarrow> string \<Rightarrow> string option \<Rightarrow> cmd_result" where
  "georep_pause g mnode mastervol slaveip slavevol user =
     run g mnode (georep_pause_cmd mastervol slaveip slavevol user)"

definition georep_resume_cmd :: "string \<Rightarrow> string \<Rightarrow> string \<Rightarrow> string option \<Rightarrow> string" where
  "georep_resume_cmd mastervol slaveip slavevol user =
     (if py_truthy user
      then ''gluster volume geo-replication '' @ mastervol @ '' '' @ py_str user @ ''@''
             @ slaveip @ ''::'' @ slavevol @ '' resume''
      else ''gluster volume geo-replication '' @ mastervol @ '' '' @ slaveip @ ''::''
             @ slavevol @ '' resume'')"

definition georep_resume ::
  "executor \<Rightarrow> string \<Rightarrow> string \<Rightarrow> string \<Rightarrow> string \<Rightarrow> string option \<Rightarrow> cmd_result" where
  "georep_resume g mnode mastervol slaveip slavevol user =
     run g mnode (georep_resume_cmd mastervol slaveip slavevol user)"

definition georep_delete_cmd :: "string \<Rightarrow> string \<Rightarrow> string \<Rightarrow> string option \<Rightarrow> string" where
  "georep_delete_cmd mastervol slaveip slavevol user =
     (if py_truthy user
      then ''gluster volume geo-replication '' @ mastervol @ '' '' @ py_str user @ ''@''
             @ slaveip @ ''::'' @ slavevol @ '' delete''
      else ''gluster volume geo-replication '' @ mastervol @ '' '' @ slaveip @ ''::''
             @ slavevol @ '' delete'')"

definition georep_delete ::
  "executor \<Rightarrow> string \<Rightarrow> string \<Rightarrow> string \<Rightarrow> string \<Rightarrow> string option \<Rightarrow> cmd_result" where
  "georep_delete g mnode mastervol slaveip slavevol user =
     run g mnode (georep_delete_cmd mastervol slaveip slavevol user)"

subsection \<open>The address grammar in the words of the specification\<close>

text \<open>
  The specification's address grammar, for comparison with the commands above: with a
  user supplied the slave endpoint is \<open>user@slavehost::slavevol\<close>, otherwise
  \<open>slavehost::slavevol\<close>.
\<close>

definition slave_endpoint_spec :: "string option \<Rightarrow> string \<Rightarrow> string \<Rightarrow> string" where
  "slave_endpoint_spec user slavehost slavevol =
     (case user of
        Some u \<Rightarrow> u @ ''@'' @ slavehost @ ''::'' @ slavevol
      | None \<Rightarrow> slavehost @ ''::'' @ slavevol)"

section \<open>Properties\<close>

subsection \<open>The substring test\<close>

lemma starts_with_iff: "starts_with n h \<longleftrightarrow> (\<exists>ss. h = n @ ss)"
  by (induction n h rule: starts_with.induct) auto

lemma str_in_iff: "str_in n h \<longleftrightarrow> (\<exists>ps ss. h = ps @ n @ ss)"
proof (induction h)
  case Nil
  show ?case by auto
next
  case (Cons a h)
  show ?case
  proof
    assume "str_in n (a # h)"
    then consider "starts_with n (a # h)" | "str_in n h" by auto
    then show "\<exists>ps ss. a # h = ps @ n @ ss"
    proof cases
      case 1
      then obtain ss where "a # h = n @ ss" using starts_with_iff by blast
      then have "a # h = [] @ n @ ss" by simp
      then show ?thesis by blast
    next
      case 2
      then obtain ps ss where "h = ps @ n @ ss" using Cons.IH by blast
      then have "a # h = (a # ps) @ n @ ss" by simp
      then show ?thesis by blast
    qed
  next
    assume "\<exists>ps ss. a # h = ps @ n @ ss"
    then obtain ps ss where eq: "a # h = ps @ n @ ss" by blast
    show "str_in n (a # h)"
    proof (cases ps)
      case Nil
      then have "starts_with n (a # h)" using eq starts_with_iff by auto
      then show ?thesis by simp
    next
      case (Cons b qs)
      then have "h = qs @ n @ ss" using eq by simp
      then have "str_in n h" using Cons.IH by blast
      then show ?thesis by simp
    qed
  qed
qed

lemma str_in_self: "str_in n n"
  using str_in_iff[of n n] by (metis append_Nil append_Nil2)

lemma str_in_append_left: "str_in n ys \<Longrightarrow> str_in n (xs @ ys)"
  unfolding str_in_iff by (metis append_assoc)

lemma str_in_append_right: "str_in n xs \<Longrightarrow> str_in n (xs @ ys)"
  unfolding str_in_iff by (metis append_assoc)

subsection \<open>The fan-out loops\<close>

text \<open>
  Each loop visits every item: its flag is the conjunction over all items, and it logs one
  line for each offending item, in iteration order.
\<close>

lemma groupadd_loop_fst:
  "fst (georep_groupadd_loop gn rs (rc, lg)) =
     (rc \<and> (\<forall>(server, retcode, out, err) \<in> set rs. retcode = 0 \<or> str_in ''already exists'' err))"
proof (induction rs arbitrary: rc lg)
  case Nil
  show ?case by simp
next
  case (Cons x rs)
  obtain server retcode out err where x: "x = (server, retcode, out, err)"
    by (cases x) auto
  show ?case
    by (cases "retcode = 0"; cases "str_in ''already exists'' err") (simp_all add: x Cons.IH)
qed

lemma groupadd_loop_snd:
  "snd (georep_groupadd_loop gn rs (rc, lg)) =
     lg @ map (\<lambda>(server, r). ''Unable to add group '' @ gn @ '' on server '' @ server)
            (filter (\<lambda>(server, retcode, out, err). retcode \<noteq> 0 \<and> \<not> str_in ''already exists'' err) rs)"
proof (induction rs arbitrary: rc lg)
  case Nil
  show ?case by simp
next
  case (Cons x rs)
  obtain server retcode out err where x: "x = (server, retcode, out, err)"
    by (cases x) auto
  show ?case
    by (cases "retcode = 0"; cases "str_in ''already exists'' err") (simp_all add: x Cons.IH)
qed

lemma groupadd_fst:
  "fst (georep_groupadd g servers gn) =
     (\<forall>(server, retcode, out, err) \<in> set (run_parallel g servers (georep_groupadd_cmd gn)). retcode = 0 \<or> str_in ''already exists'' err)"
proof -
  obtain rc lg where
    l: "georep_groupadd_loop gn (run_parallel g servers (georep_groupadd_cmd gn)) (True, []) = (rc, lg)"
    by (cases "georep_groupadd_loop gn (run_parallel g servers (georep_groupadd_cmd gn)) (True, [])")
  have "fst (georep_groupadd g servers gn) = rc"
    by (simp add: georep_groupadd_def Let_def l)
  moreover have
    "rc = fst (georep_groupadd_loop gn (run_parallel g servers (georep_groupadd_cmd gn)) (True, []))"
    by (simp add: l)
  ultimately show ?thesis
    by (simp only: groupadd_loop_fst simp_thms)
qed

lemma groupadd_snd:
  "snd (georep_groupadd g servers gn) =
     map (\<lambda>(server, r). ''Unable to add group '' @ gn @ '' on server '' @ server)
       (filter (\<lambda>(server, retcode, out, err). retcode \<noteq> 0 \<and> \<not> str_in ''already exists'' err)
          (run_parallel g servers (georep_groupadd_cmd gn)))"
proof -
  obtain rc lg where
    l: "georep_groupadd_loop gn (run_parallel g servers (georep_groupadd_cmd gn)) (True, []) = (rc, lg)"
    by (cases "georep_groupadd_loop gn (run_parallel g servers (georep_groupadd_cmd gn)) (True, [])")
  have "snd (georep_groupadd g servers gn) = lg"
    by (simp add: georep_groupadd_def Let_def l)
  moreover have
    "lg = snd (georep_groupadd_loop gn (run_parallel g servers (georep_groupadd_cmd gn)) (True, []))"
    by (simp add: l)
  ultimately show ?thesis
    by (simp only: groupadd_loop_snd append_Nil)
qed

lemma geoaccount_loop_fst:
  "fst (georep_geoaccount_loop rs (rc, lg)) =
     (rc \<and> (\<forall>(server, retcode, out, err) \<in> set rs. retcode = 0 \<or> str_in ''already exists'' err))"
proof (induction rs arbitrary: rc lg)
  case Nil
  show ?case by simp
next
  case (Cons x rs)
  obtain server retcode out err where x: "x = (server, retcode, out, err)"
    by (cases x) auto
  show ?case
    by (cases "retcode = 0"; cases "str_in ''already exists'' err") (simp_all add: x Cons.IH)
qed

lemma geoaccount_loop_snd:
  "snd (georep_geoaccount_loop rs (rc, lg)) =
     lg @ map (\<lambda>(server, r). ''Unable to add user on '' @ server)
            (filter (\<lambda>(server, retcode, out, err). retcode \<noteq> 0 \<and> \<not> str_in ''already exists'' err) rs)"
proof (induction rs arbitrary: rc lg)
  case Nil
  show ?case by simp
next
  case (Cons x rs)
  obtain server retcode out err where x: "x = (server, retcode, out, err)"
    by (cases x) auto
  show ?case
    by (cases "retcode = 0"; cases "str_in ''already exists'' err") (simp_all add: x Cons.IH)
qed

lemma geoaccount_fst:
  "fst (georep_geoaccount g servers gn ga) =
     (\<forall>(server, retcode, out, err) \<in> set (run_parallel g servers (georep_geoaccount_cmd gn ga)). retcode = 0 \<or> str_in ''already exists'' err)"
proof -
  obtain rc lg where
    l: "georep_geoaccount_loop (run_parallel g servers (georep_geoaccount_cmd gn ga)) (True, []) = (rc, lg)"
    by (cases "georep_geoaccount_loop (run_parallel g servers (georep_geoaccount_cmd gn ga)) (True, [])")
  have "fst (georep_geoaccount g servers gn ga) = rc"
    by (simp add: georep_geoaccount_def Let_def l)
  moreover have
    "rc = fst (georep_geoaccount_loop (run_parallel g servers (georep_geoaccount_cmd gn ga)) (True, []))"
    by (simp add: l)
  ultimately show ?thesis
    by (simp only: geoaccount_loop_fst simp_thms)
qed

lemma geoaccount_snd:
  "snd (georep_geoaccount g servers gn ga) =
     map (\<lambda>(server, r). ''Unable to add user on '' @ server)
       (filter (\<lambda>(server, retcode, out, err). retcode \<noteq> 0 \<and> \<not> str_in ''already exists'' err)
          (run_parallel g servers (georep_geoaccount_cmd gn ga)))"
proof -
  obtain rc lg where
    l: "georep_geoaccount_loop (run_parallel g servers (georep_geoaccount_cmd gn ga)) (True, []) = (rc, lg)"
    by (cases "georep_geoaccount_loop (run_parallel g servers (georep_geoaccount_cmd gn ga)) (True, [])")
  have "snd (georep_geoaccount g servers gn ga) = lg"
    by (simp add: georep_geoaccount_def Let_def l)
  moreover have
    "lg = snd (georep_geoaccount_loop (run_parallel g servers (georep_geoaccount_cmd gn ga)) (True, []))"
    by (simp add: l)
  ultimately show ?thesis
    by (simp only: geoaccount_loop_snd append_Nil)
qed

lemma geoaccount_setpasswd_loop_fst:
  "fst (georep_geoaccount_setpasswd_loop ga rs (rc, lg)) =
     (rc \<and> (\<forall>(server, retcode, out, err) \<in> set rs. retcode = 0))"
proof (induction rs arbitrary: rc lg)
  case Nil
  show ?case by simp
next
  case (Cons x rs)
  obtain server retcode out err where x: "x = (server, retcode, out, err)"
    by (cases x) auto
  show ?case
    by (cases "retcode = 0"; cases "str_in ''already exists'' err") (simp_all add: x Cons.IH)
qed

lemma geoaccount_setpasswd_loop_snd:
  "snd (georep_geoaccount_setpasswd_loop ga rs (rc, lg)) =
     lg @ map (\<lambda>(server, r). ''Unable to set passwd for user '' @ ga @ '' on '' @ server)
            (filter (\<lambda>(server, retcode, out, err). retcode \<noteq> 0) rs)"
proof (induction rs arbitrary: rc lg)
  case Nil
  show ?case by simp
next
  case (Cons x rs)
  obtain server retcode out err where x: "x = (server, retcode, out, err)"
    by (cases x) auto
  show ?case
    by (cases "retcode = 0"; cases "str_in ''already exists'' err") (simp_all add: x Cons.IH)
qed

lemma geoaccount_setpasswd_fst:
  "fst (georep_geoaccount_setpasswd g servers gn ga pw) =
     (\<forall>(server, retcode, out, err) \<in> set (run_parallel g servers (georep_geoaccount_setpasswd_cmd ga pw)). retcode = 0)"
proof -
  obtain rc lg where
    l: "georep_geoaccount_setpasswd_loop ga (run_parallel g servers (georep_geoaccount_setpasswd_cmd ga pw)) (True, []) = (rc, lg)"
    by (cases "georep_geoaccount_setpasswd_loop ga (run_parallel g servers (georep_geoaccount_setpasswd_cmd ga pw)) (True, [])")
  have "fst (georep_geoaccount_setpasswd g servers gn ga pw) = rc"
    by (simp add: georep_geoaccount_setpasswd_def Let_def l)
  moreover have
    "rc = fst (georep_geoaccount_setpasswd_loop ga (run_parallel g servers (georep_geoaccount_setpasswd_cmd ga pw)) (True, []))"
    by (simp add: l)
  ultimately show ?thesis
    by (simp only: geoaccount_setpasswd_loop_fst simp_thms)
qed

lemma geoaccount_setpasswd_snd:
  "snd (georep_geoaccount_setpasswd g servers gn ga pw) =
     map (\<lambda>(server, r). ''Unable to set passwd for user '' @ ga @ '' on '' @ server)
       (filter (\<lambda>(server, retcode, out, err). retcode \<noteq> 0)
          (run_parallel g servers (georep_geoaccount_setpasswd_cmd ga pw)))"
proof -
  obtain rc lg where
    l: "georep_geoaccount_setpasswd_loop ga (run_parallel g servers (georep_geoaccount_setpasswd_cmd ga pw)) (True, []) = (rc, lg)"
    by (cases "georep_geoaccount_setpasswd_loop ga (run_parallel g servers (georep_geoaccount_setpasswd_cmd ga pw)) (True, [])")
  have "snd (georep_geoaccount_setpasswd g servers gn ga pw) = lg"
    by (simp add: georep_geoaccount_setpasswd_def Let_def l)
  moreover have
    "lg = snd (georep_geoaccount_setpasswd_loop ga (run_parallel g servers (georep_geoaccount_setpasswd_cmd ga pw)) (True, []))"
    by (simp add: l)
  ultimately show ?thesis
    by (simp only: geoaccount_setpasswd_loop_snd append_Nil)
qed

text \<open>A condition on status and stderr holds for all items iff it holds for all result triples.\<close>

lemma ball_results_snd:
  fixes rs :: "(string \<times> cmd_result) list"
  shows "(\<forall>(server, retcode, out, err) \<in> set rs. P retcode err) =
         (\<forall>(retcode, out, err) \<in> snd ` set rs. P retcode err)"
  by force


subsection \<open>Command strings of the session operations\<close>

text \<open>
  C1. For status, create, start, stop, pause, resume and delete, the slave endpoint inside
  the emitted command is exactly \<open>user@slavehost::slavevol\<close> when a non-empty user is
  supplied and exactly \<open>slavehost::slavevol\<close> when the user is omitted: every one of the
  seven commands is the fixed prefix, the master volume, a blank, the same endpoint
  \<open>slave_endpoint_spec user slavehost slavevol\<close>, and the operation's own keywords.
\<close>

theorem session_cmd_slave_endpoint:
  assumes "user \<noteq> Some []"
  shows "georep_status_cmd mv h sv user =
           ''gluster volume geo-replication '' @ mv @ '' '' @ slave_endpoint_spec user h sv
             @ '' status''
       \<and> georep_create_cmd mv h sv user force =
           ''gluster volume geo-replication '' @ mv @ '' '' @ slave_endpoint_spec user h sv
             @ (if force then '' create push-pem force'' else '' create push-pem'')
       \<and> georep_start_cmd mv h sv user force =
           ''gluster volume geo-replication '' @ mv @ '' '' @ slave_endpoint_spec user h sv
             @ (if force then '' start force'' else '' start'')
       \<and> georep_stop_cmd mv h sv user force =
           ''gluster volume geo-replication '' @ mv @ '' '' @ slave_endpoint_spec user h sv
             @ (if force then '' stop force'' else '' stop'')
       \<and> georep_pause_cmd mv h sv user =
           ''gluster volume geo-replication '' @ mv @ '' '' @ slave_endpoint_spec user h sv
             @ '' pause''
       \<and> georep_resume_cmd mv h sv user =
           ''gluster volume geo-replication '' @ mv @ '' '' @ slave_endpoint_spec user h sv
             @ '' resume''
       \<and> georep_delete_cmd mv h sv user =
           ''gluster volume geo-replication '' @ mv @ '' '' @ slave_endpoint_spec user h sv
             @ '' delete''"
proof (cases user)
  case None
  then show ?thesis
    by (simp add: georep_status_cmd_def georep_create_cmd_def georep_start_cmd_def
        georep_stop_cmd_def georep_pause_cmd_def georep_resume_cmd_def georep_delete_cmd_def
        slave_endpoint_spec_def)
next
  case (Some u)
  with assms have "u \<noteq> []" by simp
  with Some show ?thesis
    by (simp add: georep_status_cmd_def georep_create_cmd_def georep_start_cmd_def
        georep_stop_cmd_def georep_pause_cmd_def georep_resume_cmd_def georep_delete_cmd_def
        slave_endpoint_spec_def)
qed

theorem session_cmd_slave_endpoint_witness:
  "Some ''geoaccount'' \<noteq> Some []
   \<and> georep_status_cmd ''mvol'' ''10.0.0.5'' ''svol'' (Some ''geoaccount'') =
       ''gluster volume geo-replication mvol geoaccount@10.0.0.5::svol status''
   \<and> georep_stop_cmd ''mvol'' ''10.0.0.5'' ''svol'' (Some ''geoaccount'') True =
       ''gluster volume geo-replication mvol geoaccount@10.0.0.5::svol stop force''
   \<and> georep_delete_cmd ''mvol'' ''10.0.0.5'' ''svol'' (Some ''geoaccount'') =
       ''gluster volume geo-replication mvol geoaccount@10.0.0.5::svol delete''
   \<and> georep_status_cmd ''mvol'' ''10.0.0.5'' ''svol'' None =
       ''gluster volume geo-replication mvol 10.0.0.5::svol status''
   \<and> georep_start_cmd ''mvol'' ''10.0.0.5'' ''svol'' None False =
       ''gluster volume geo-replication mvol 10.0.0.5::svol start''"
proof -
  have h1: "Some ''geoaccount'' \<noteq> Some []" by simp
  have h2: "(None :: string option) \<noteq> Some []" by simp
  show ?thesis
    using h1
      session_cmd_slave_endpoint [OF h1, of "''mvol''" "''10.0.0.5''" "''svol''" True]
      session_cmd_slave_endpoint [OF h2, of "''mvol''" "''10.0.0.5''" "''svol''" False]
    by (simp add: slave_endpoint_spec_def)
qed

text \<open>
  C2. Creating a session with master volume \<open>mvol\<close>, slave host \<open>10.0.0.5\<close>, slave
  volume \<open>svol\<close>, user \<open>geoaccount\<close> and force set hands the executor exactly the
  command \<open>gluster volume geo-replication mvol geoaccount@10.0.0.5::svol create push-pem force\<close>;
  without force the trailing \<open>force\<close> token is absent, and without a user the
  \<open>geoaccount@\<close> prefix is absent.
\<close>

theorem georep_create_example:
  "georep_create g mnode ''mvol'' ''10.0.0.5'' ''svol'' (Some ''geoaccount'') True =
     run g mnode
       ''gluster volume geo-replication mvol geoaccount@10.0.0.5::svol create push-pem force''
   \<and> georep_create g mnode ''mvol'' ''10.0.0.5'' ''svol'' (Some ''geoaccount'') False =
     run g mnode
       ''gluster volume geo-replication mvol geoaccount@10.0.0.5::svol create push-pem''
   \<and> georep_create g mnode ''mvol'' ''10.0.0.5'' ''svol'' None True =
     run g mnode ''gluster volume geo-replication mvol 10.0.0.5::svol create push-pem force''
   \<and> georep_create g mnode ''mvol'' ''10.0.0.5'' ''svol'' None False =
     run g mnode ''gluster volume geo-replication mvol 10.0.0.5::svol create push-pem''
   \<and> georep_create_cmd ''mvol'' ''10.0.0.5'' ''svol'' (Some ''geoaccount'') True =
       ''gluster volume geo-replication mvol geoaccount@10.0.0.5::svol create push-pem force''
   \<and> georep_create_cmd ''mvol'' ''10.0.0.5'' ''svol'' (Some ''geoaccount'') False =
       ''gluster volume geo-replication mvol geoaccount@10.0.0.5::svol create push-pem''
   \<and> georep_create_cmd ''mvol'' ''10.0.0.5'' ''svol'' None True =
       ''gluster volume geo-replication mvol 10.0.0.5::svol create push-pem force''
   \<and> georep_create_cmd ''mvol'' ''10.0.0.5'' ''svol'' None False =
       ''gluster volume geo-replication mvol 10.0.0.5::svol create push-pem''"
  by (simp add: georep_create_def georep_create_cmd_def)

text \<open>
  C8. For each of the seven operations with the optional user, the empty string as user
  gives exactly the command of the omitted user, the root form \<open>slavehost::slavevol\<close>
  with no \<open>@\<close> prefix.
\<close>

theorem empty_user_same_as_omitted:
  "georep_status_cmd mv h sv (Some []) = georep_status_cmd mv h sv None
   \<and> georep_status_cmd mv h sv (Some []) =
       ''gluster volume geo-replication '' @ mv @ '' '' @ h @ ''::'' @ sv @ '' status''
   \<and> georep_create_cmd mv h sv (Some []) force = georep_create_cmd mv h sv None force
   \<and> georep_create_cmd mv h sv (Some []) force =
       ''gluster volume geo-replication '' @ mv @ '' '' @ h @ ''::'' @ sv
         @ (if force then '' create push-pem force'' else '' create push-pem'')
   \<and> georep_start_cmd mv h sv (Some []) force = georep_start_cmd mv h sv None force
   \<and> georep_start_cmd mv h sv (Some []) force =
       ''gluster volume geo-replication '' @ mv @ '' '' @ h @ ''::'' @ sv
         @ (if force then '' start force'' else '' start'')
   \<and> georep_stop_cmd mv h sv (Some []) force = georep_stop_cmd mv h sv None force
   \<and> georep_stop_cmd mv h sv (Some []) force =
       ''gluster volume geo-replication '' @ mv @ '' '' @ h @ ''::'' @ sv
         @ (if force then '' stop force'' else '' stop'')
   \<and> georep_pause_cmd mv h sv (Some []) = georep_pause_cmd mv h sv None
   \<and> georep_pause_cmd mv h sv (Some []) =
       ''gluster volume geo-replication '' @ mv @ '' '' @ h @ ''::'' @ sv @ '' pause''
   \<and> georep_resume_cmd mv h sv (Some []) = georep_resume_cmd mv h sv None
   \<and> georep_resume_cmd mv h sv (Some []) =
       ''gluster volume geo-replication '' @ mv @ '' '' @ h @ ''::'' @ sv @ '' resume''
   \<and> georep_delete_cmd mv h sv (Some []) = georep_delete_cmd mv h sv None
   \<and> georep_delete_cmd mv h sv (Some []) =
       ''gluster volume geo-replication '' @ mv @ '' '' @ h @ ''::'' @ sv @ '' delete''"
  by (simp add: georep_status_cmd_def georep_create_cmd_def georep_start_cmd_def
      georep_stop_cmd_def georep_pause_cmd_def georep_resume_cmd_def georep_delete_cmd_def)

subsection \<open>Results of the single-host operations\<close>

text \<open>
  C6. Each of the fourteen single-host operations that return a triple returns exactly
  what the executor answered for the operation's command on the given node: the exit
  status, stdout and stderr, unchanged and in this order.
\<close>

theorem single_host_pass_through:
  "georep_createpem g mnode = run g mnode georep_createpem_cmd
   \<and> georep_mountbroker_setup g mnode groupname directory =
       run g mnode (georep_mountbroker_setup_cmd groupname directory)
   \<and> georep_mountbroker_adduser g mnode slavevol useraccount =
       run g mnode (georep_mountbroker_adduser_cmd slavevol useraccount)
   \<and> georep_mountbroker_status g mnode = run g mnode georep_mountbroker_status_cmd
   \<and> georep_set_pemkeys g mnode useraccount mastervol slavevol =
       run g mnode (georep_set_pemkeys_cmd useraccount mastervol slavevol)
   \<and> georep_status g mnode mastervol slaveip slavevol user =
       run g mnode (georep_status_cmd mastervol slaveip slavevol user)
   \<and> georep_create g mnode mastervol slaveip slavevol user force =
       run g mnode (georep_create_cmd mastervol slaveip slavevol user force)
   \<and> georep_config_get g mnode mastervol slaveip slavevol config_key =
       run g mnode (georep_config_get_cmd mastervol slaveip slavevol config_key)
   \<and> georep_config_set g mnode mastervol slaveip slavevol config val =
       run g mnode (georep_config_set_cmd mastervol slaveip slavevol config val)
   \<and> georep_start g mnode mastervol slaveip slavevol user force =
       run g mnode (georep_start_cmd mastervol slaveip slavevol user force)
   \<and> georep_stop g mnode mastervol slaveip slavevol user force =
       run g mnode (georep_stop_cmd mastervol slaveip slavevol user force)
   \<and> georep_pause g mnode mastervol slaveip slavevol user =
       run g mnode (georep_pause_cmd mastervol slaveip slavevol user)
   \<and> georep_resume g mnode mastervol slaveip slavevol user =
       run g mnode (georep_resume_cmd mastervol slaveip slavevol user)
   \<and> georep_delete g mnode mastervol slaveip slavevol user =
       run g mnode (georep_delete_cmd mastervol slaveip slavevol user)"
  by (simp only: georep_createpem_def georep_mountbroker_setup_def
      georep_mountbroker_adduser_def georep_mountbroker_status_def georep_set_pemkeys_def
      georep_status_def georep_create_def georep_config_get_def georep_config_set_def
      georep_start_def georep_stop_def georep_pause_def georep_resume_def georep_delete_def
      simp_thms)

subsection \<open>Booleans of the key operations\<close>

text \<open>
  C7. Copying the public key to a peer returns true exactly when the exit status the
  executor reports is 0; stdout and stderr play no part.
\<close>

theorem ssh_copyid_status_only:
  "georep_ssh_copyid g mnode tonode user passwd =
     (fst (run g mnode (georep_ssh_copyid_cmd tonode user passwd)) = 0)"
  by (cases "run g mnode (georep_ssh_copyid_cmd tonode user passwd)")
     (simp add: georep_ssh_copyid_def)

text \<open>
  C5, as the spec states it (true when the status is 0 or stderr or stdout contains
  \<open>already exists\<close>), fails: on the answer with status 1, empty stdout and the stderr
  \<open>/root/.ssh/id_rsa already exists.\<close> the function returns false.
\<close>

theorem ssh_keygen_stderr_counterexample:
  "str_in ''already exists''
     (snd (snd (run (canned_executor (1, [], ''/root/.ssh/id_rsa already exists.'') [])
                  ''master1'' georep_ssh_keygen_cmd)))
   \<and> \<not> georep_ssh_keygen (canned_executor (1, [], ''/root/.ssh/id_rsa already exists.'') [])
         ''master1''"
  by (simp add: georep_ssh_keygen_def canned_executor_def)

text \<open>
  C5, amended. Generating the local key pair returns true exactly when the exit status
  is 0 or stdout contains \<open>already exists\<close>; stderr is not looked at. So an answer with
  a non-zero status whose stdout contains \<open>already exists\<close> gives true, and any other
  answer with a non-zero status gives false.
\<close>

theorem ssh_keygen_status_or_stdout:
  "georep_ssh_keygen g mnode =
     (fst (run g mnode georep_ssh_keygen_cmd) = 0
      \<or> str_in ''already exists'' (fst (snd (run g mnode georep_ssh_keygen_cmd))))"
  by (cases "run g mnode georep_ssh_keygen_cmd") (auto simp add: georep_ssh_keygen_def)

subsection \<open>Booleans of the fan-out operations\<close>

text \<open>
  C3. Adding the group and adding the user on many hosts return true exactly when every
  host either exits with status 0 or has \<open>already exists\<close> in its stderr. So the result
  is true when all hosts exit 0, still true when the only failing hosts report
  \<open>already exists\<close>, and false as soon as one host fails with another stderr.
\<close>

theorem fanout_create_already_exists_exempt:
  "fst (georep_groupadd g servers groupname) =
     (\<forall>(server, retcode, out, err)
         \<in> set (run_parallel g servers (georep_groupadd_cmd groupname)).
        retcode = 0 \<or> str_in ''already exists'' err)
   \<and> fst (georep_geoaccount g servers groupname groupaccount) =
     (\<forall>(server, retcode, out, err)
         \<in> set (run_parallel g servers (georep_geoaccount_cmd groupname groupaccount)).
        retcode = 0 \<or> str_in ''already exists'' err)"
  by (simp only: groupadd_fst geoaccount_fst simp_thms)

theorem fanout_create_already_exists_exempt_witness:
  "fst (georep_groupadd
          (canned_executor (0, [], [])
             [(''slave1'', 0, [], []), (''slave2'', 0, [], [])])
          [''slave1'', ''slave2''] ''geogroup'')
   \<and> fst (georep_groupadd
          (canned_executor (0, [], [])
             [(''slave1'', 0, [], []),
              (''slave2'', 9, [], ''groupadd: group 'geogroup' already exists'')])
          [''slave1'', ''slave2''] ''geogroup'')
   \<and> \<not> fst (georep_groupadd
          (canned_executor (0, [], [])
             [(''slave1'', 0, [], []),
              (''slave2'', 9, [], ''groupadd: group 'geogroup' already exists''),
              (''slave3'', 10, [], ''groupadd: cannot lock /etc/group'')])
          [''slave1'', ''slave2'', ''slave3''] ''geogroup'')
   \<and> fst (georep_geoaccount
          (canned_executor (0, [], [])
             [(''slave1'', 9, [], ''useradd: user 'geoaccount' already exists'')])
          [''slave1''] ''geogroup'' ''geoaccount'')
   \<and> \<not> fst (georep_geoaccount
          (canned_executor (0, [], [])
             [(''slave1'', 6, ''already exists'', ''useradd: group 'geogroup' does not exist'')])
          [''slave1''] ''geogroup'' ''geoaccount'')"
  using
    fanout_create_already_exists_exempt
      [of "canned_executor (0, [], []) [(''slave1'', 0, [], []), (''slave2'', 0, [], [])]"
          "[''slave1'', ''slave2'']" "''geogroup''"]
    fanout_create_already_exists_exempt
      [of "canned_executor (0, [], [])
             [(''slave1'', 0, [], []),
              (''slave2'', 9, [], ''groupadd: group 'geogroup' already exists'')]"
          "[''slave1'', ''slave2'']" "''geogroup''"]
    fanout_create_already_exists_exempt
      [of "canned_executor (0, [], [])
             [(''slave1'', 0, [], []),
              (''slave2'', 9, [], ''groupadd: group 'geogroup' already exists''),
              (''slave3'', 10, [], ''groupadd: cannot lock /etc/group'')]"
          "[''slave1'', ''slave2'', ''slave3'']" "''geogroup''"]
    fanout_create_already_exists_exempt
      [of "canned_executor (0, [], [])
             [(''slave1'', 9, [], ''useradd: user 'geoaccount' already exists'')]"
          "[''slave1'']" "''geogroup''" "''geoaccount''"]
    fanout_create_already_exists_exempt
      [of "canned_executor (0, [], [])
             [(''slave1'', 6, ''already exists'', ''useradd: group 'geogroup' does not exist'')]"
          "[''slave1'']" "''geogroup''" "''geoaccount''"]
  by (simp add: canned_executor_def)

text \<open>
  C4. Setting the password on many hosts returns true exactly when every host exits with
  status 0: a non-zero status on any host gives false, whatever its stderr says.
\<close>

theorem setpasswd_no_exemption:
  "fst (georep_geoaccount_setpasswd g servers groupname groupaccount passwd) =
     (\<forall>(server, retcode, out, err)
         \<in> set (run_parallel g servers (georep_geoaccount_setpasswd_cmd groupaccount passwd)).
        retcode = 0)"
  by (simp only: geoaccount_setpasswd_fst)

theorem setpasswd_no_exemption_witness:
  "fst (georep_geoaccount_setpasswd
          (canned_executor (0, [], [])
             [(''slave1'', 0, [], []), (''slave2'', 0, [], [])])
          [''slave1'', ''slave2''] ''geogroup'' ''geoaccount'' ''secret'')
   \<and> \<not> fst (georep_geoaccount_setpasswd
          (canned_executor (0, [], [])
             [(''slave1'', 0, [], []), (''slave2'', 1, [], ''already exists'')])
          [''slave1'', ''slave2''] ''geogroup'' ''geoaccount'' ''secret'')"
  using
    setpasswd_no_exemption
      [of "canned_executor (0, [], []) [(''slave1'', 0, [], []), (''slave2'', 0, [], [])]"
          "[''slave1'', ''slave2'']" "''geogroup''" "''geoaccount''" "''secret''"]
    setpasswd_no_exemption
      [of "canned_executor (0, [], [])
             [(''slave1'', 0, [], []), (''slave2'', 1, [], ''already exists'')]"
          "[''slave1'', ''slave2'']" "''geogroup''" "''geoaccount''" "''secret''"]
  by (simp add: canned_executor_def)

text \<open>
  C10. Each fan-out operation looks at every item of the result dictionary: it logs one
  line for every offending host, in iteration order, also for hosts that come after an
  earlier offender. Its boolean is a function of the set of result triples alone: two
  runs whose dictionaries hold the same set of (status, stdout, stderr) triples, under
  whatever hosts and in whatever order, return the same boolean.
\<close>

theorem fanout_examines_all_order_independent:
  "snd (georep_groupadd g servers gn) =
     map (\<lambda>(server, r). ''Unable to add group '' @ gn @ '' on server '' @ server)
       (filter (\<lambda>(server, retcode, out, err).
                  retcode \<noteq> 0 \<and> \<not> str_in ''already exists'' err)
          (run_parallel g servers (georep_groupadd_cmd gn)))
   \<and> snd (georep_geoaccount g servers gn ga) =
     map (\<lambda>(server, r). ''Unable to add user on '' @ server)
       (filter (\<lambda>(server, retcode, out, err).
                  retcode \<noteq> 0 \<and> \<not> str_in ''already exists'' err)
          (run_parallel g servers (georep_geoaccount_cmd gn ga)))
   \<and> snd (georep_geoaccount_setpasswd g servers gn ga pw) =
     map (\<lambda>(server, r). ''Unable to set passwd for user '' @ ga @ '' on '' @ server)
       (filter (\<lambda>(server, retcode, out, err). retcode \<noteq> 0)
          (run_parallel g servers (georep_geoaccount_setpasswd_cmd ga pw)))
   \<and> (snd ` set (run_parallel g servers (georep_groupadd_cmd gn)) =
        snd ` set (run_parallel g' servers' (georep_groupadd_cmd gn'))
      \<longrightarrow> fst (georep_groupadd g servers gn) = fst (georep_groupadd g' servers' gn'))
   \<and> (snd ` set (run_parallel g servers (georep_geoaccount_cmd gn ga)) =
        snd ` set (run_parallel g' servers' (georep_geoaccount_cmd gn' ga'))
      \<longrightarrow> fst (georep_geoaccount g servers gn ga) = fst (georep_geoaccount g' servers' gn' ga'))
   \<and> (snd ` set (run_parallel g servers (georep_geoaccount_setpasswd_cmd ga pw)) =
        snd ` set (run_parallel g' servers' (georep_geoaccount_setpasswd_cmd ga' pw'))
      \<longrightarrow> fst (georep_geoaccount_setpasswd g servers gn ga pw) =
          fst (georep_geoaccount_setpasswd g' servers' gn' ga' pw'))"
proof -
  have a: "snd ` set (run_parallel g servers (georep_groupadd_cmd gn)) =
        snd ` set (run_parallel g' servers' (georep_groupadd_cmd gn'))
      \<longrightarrow> fst (georep_groupadd g servers gn) = fst (georep_groupadd g' servers' gn')"
    unfolding groupadd_fst
      ball_results_snd [where P = "\<lambda>retcode err. retcode = 0 \<or> str_in ''already exists'' err"]
    by simp
  have b: "snd ` set (run_parallel g servers (georep_geoaccount_cmd gn ga)) =
        snd ` set (run_parallel g' servers' (georep_geoaccount_cmd gn' ga'))
      \<longrightarrow> fst (georep_geoaccount g servers gn ga) = fst (georep_geoaccount g' servers' gn' ga')"
    unfolding geoaccount_fst
      ball_results_snd [where P = "\<lambda>retcode err. retcode = 0 \<or> str_in ''already exists'' err"]
    by simp
  have c: "snd ` set (run_parallel g servers (georep_geoaccount_setpasswd_cmd ga pw)) =
        snd ` set (run_parallel g' servers' (georep_geoaccount_setpasswd_cmd ga' pw'))
      \<longrightarrow> fst (georep_geoaccount_setpasswd g servers gn ga pw) =
          fst (georep_geoaccount_setpasswd g' servers' gn' ga' pw')"
    unfolding geoaccount_setpasswd_fst ball_results_snd [where P = "\<lambda>retcode err. retcode = 0"]
    by simp
  show ?thesis
    using a b c groupadd_snd [of g servers gn] geoaccount_snd [of g servers gn ga]
      geoaccount_setpasswd_snd [of g servers gn ga pw]
    by blast
qed

theorem fanout_examines_all_order_independent_witness:
  "snd ` set (run_parallel
        (canned_executor (0, [], [])
           [(''slave1'', 10, [], ''groupadd: cannot lock /etc/group''),
            (''slave2'', 0, [], []),
            (''slave3'', 4, [], ''groupadd: GID in use'')])
        [''slave1'', ''slave2'', ''slave3''] (georep_groupadd_cmd ''geogroup'')) =
   snd ` set (run_parallel
        (canned_executor (0, [], [])
           [(''nodeA'', 4, [], ''groupadd: GID in use''),
            (''nodeB'', 0, [], []),
            (''nodeC'', 10, [], ''groupadd: cannot lock /etc/group''),
            (''nodeD'', 0, [], [])])
        [''nodeA'', ''nodeB'', ''nodeC'', ''nodeD''] (georep_groupadd_cmd ''geogroup''))
   \<and> fst (georep_groupadd
            (canned_executor (0, [], [])
               [(''slave1'', 10, [], ''groupadd: cannot lock /etc/group''),
                (''slave2'', 0, [], []),
                (''slave3'', 4, [], ''groupadd: GID in use'')])
            [''slave1'', ''slave2'', ''slave3''] ''geogroup'') =
       fst (georep_groupadd
            (canned_executor (0, [], [])
               [(''nodeA'', 4, [], ''groupadd: GID in use''),
                (''nodeB'', 0, [], []),
                (''nodeC'', 10, [], ''groupadd: cannot lock /etc/group''),
                (''nodeD'', 0, [], [])])
            [''nodeA'', ''nodeB'', ''nodeC'', ''nodeD''] ''geogroup'')
   \<and> snd (georep_groupadd
            (canned_executor (0, [], [])
               [(''slave1'', 10, [], ''groupadd: cannot lock /etc/group''),
                (''slave2'', 0, [], []),
                (''slave3'', 4, [], ''groupadd: GID in use'')])
            [''slave1'', ''slave2'', ''slave3''] ''geogroup'') =
       [''Unable to add group geogroup on server slave1'',
        ''Unable to add group geogroup on server slave3'']"
proof -
  let ?g = "canned_executor (0, [], [])
               [(''slave1'', 10, [], ''groupadd: cannot lock /etc/group''),
                (''slave2'', 0, [], []),
                (''slave3'', 4, [], ''groupadd: GID in use'')]"
  let ?g' = "canned_executor (0, [], [])
               [(''nodeA'', 4, [], ''groupadd: GID in use''),
                (''nodeB'', 0, [], []),
                (''nodeC'', 10, [], ''groupadd: cannot lock /etc/group''),
                (''nodeD'', 0, [], [])]"
  let ?s = "[''slave1'', ''slave2'', ''slave3'']"
  let ?s' = "[''nodeA'', ''nodeB'', ''nodeC'', ''nodeD'']"
  have h: "snd ` set (run_parallel ?g ?s (georep_groupadd_cmd ''geogroup'')) =
           snd ` set (run_parallel ?g' ?s' (georep_groupadd_cmd ''geogroup''))"
    by (auto simp add: canned_executor_def)
  note t = fanout_examines_all_order_independent
        [where g = ?g and servers = ?s and gn = "''geogroup''"
           and ga = "''geoaccount''" and pw = "''secret''"
           and g' = ?g' and servers' = ?s' and gn' = "''geogroup''"
           and ga' = "''geoaccount''" and pw' = "''secret''"]
  from t h have eq: "fst (georep_groupadd ?g ?s ''geogroup'') =
                     fst (georep_groupadd ?g' ?s' ''geogroup'')"
    by blast
  from t have "snd (georep_groupadd ?g ?s ''geogroup'') =
     map (\<lambda>(server, r). ''Unable to add group '' @ ''geogroup'' @ '' on server '' @ server)
       (filter (\<lambda>(server, retcode, out, err).
                  retcode \<noteq> 0 \<and> \<not> str_in ''already exists'' err)
          (run_parallel ?g ?s (georep_groupadd_cmd ''geogroup'')))"
    by blast
  then have logged: "snd (georep_groupadd ?g ?s ''geogroup'') =
       [''Unable to add group geogroup on server slave1'',
        ''Unable to add group geogroup on server slave3'']"
    by (simp add: canned_executor_def)
  from h eq logged show ?thesis by blast
qed

subsection \<open>Arguments inside the commands\<close>

text \<open>
  C9, as the spec states it (all caller-supplied parameters are interpolated verbatim into
  the command string, with no quoting), fails. The group name given to the password
  operation never reaches its command: run against an executor that succeeds only on
  commands containing \<open>geogroup\<close>, the operation called with the group \<open>geogroup\<close>
  returns false, and its command \<open>echo geoaccount:secret | chpasswd\<close> does not contain
  the group name. And the command of the key propagation has the password between
  double quotes.
\<close>

theorem setpasswd_groupname_not_interpolated:
  "\<not> fst (georep_geoaccount_setpasswd (probe_executor ''geogroup'') [''slave1'']
            ''geogroup'' ''geoaccount'' ''secret'')
   \<and> georep_geoaccount_setpasswd_cmd ''geoaccount'' ''secret'' =
       ''echo geoaccount:secret | chpasswd''
   \<and> \<not> str_in ''geogroup'' (georep_geoaccount_setpasswd_cmd ''geoaccount'' ''secret'')
   \<and> georep_ssh_copyid_cmd ''slave1'' ''root'' ''secret'' =
       ''sshpass -p '' @ [CHR 0x22] @ ''secret'' @ [CHR 0x22]
         @ '' ssh-copy-id -o StrictHostKeyChecking=no root@slave1''"
proof -
  have "\<not> fst (georep_geoaccount_setpasswd (probe_executor ''geogroup'') [''slave1'']
            ''geogroup'' ''geoaccount'' ''secret'')"
    by (simp add: geoaccount_setpasswd_fst probe_executor_def
        georep_geoaccount_setpasswd_cmd_def)
  moreover have "georep_geoaccount_setpasswd_cmd ''geoaccount'' ''secret'' =
       ''echo geoaccount:secret | chpasswd''"
    by (simp add: georep_geoaccount_setpasswd_cmd_def)
  moreover have
    "\<not> str_in ''geogroup'' (georep_geoaccount_setpasswd_cmd ''geoaccount'' ''secret'')"
    by (simp add: georep_geoaccount_setpasswd_cmd_def)
  moreover have "georep_ssh_copyid_cmd ''slave1'' ''root'' ''secret'' =
       ''sshpass -p '' @ [CHR 0x22] @ ''secret'' @ [CHR 0x22]
         @ '' ssh-copy-id -o StrictHostKeyChecking=no root@slave1''"
    by (simp add: georep_ssh_copyid_cmd_def)
  ultimately show ?thesis by blast
qed

text \<open>The commands without an optional user, each equal to its template with the values in the slots.\<close>

lemma plain_cmd_templates:
  "georep_ssh_copyid_cmd tonode cuser passwd =
     ''sshpass -p '' @ [CHR 0x22] @ passwd @ [CHR 0x22]
       @ '' ssh-copy-id -o StrictHostKeyChecking=no '' @ cuser @ ''@'' @ tonode"
  "georep_groupadd_cmd groupname = ''groupadd '' @ groupname"
  "georep_geoaccount_cmd groupname groupaccount =
     ''useradd -G '' @ groupname @ '' '' @ groupaccount"
  "georep_geoaccount_setpasswd_cmd groupaccount passwd =
     ''echo '' @ groupaccount @ '':'' @ passwd @ '' | chpasswd''"
  "georep_mountbroker_setup_cmd groupname directory =
     ''gluster-mountbroker setup '' @ directory @ '' '' @ groupname"
  "georep_mountbroker_adduser_cmd slavevol useraccount =
     ''gluster-mountbroker add '' @ slavevol @ '' '' @ useraccount"
  "georep_set_pemkeys_cmd useraccount mastervol slavevol =
     ''/usr/libexec/glusterfs/set_geo_rep_pem_keys.sh '' @ useraccount @ '' '' @ mastervol
       @ '' '' @ slavevol"
  "georep_config_get_cmd mastervol slaveip slavevol config_key =
     ''gluster volume geo-replication '' @ mastervol @ '' '' @ slaveip @ ''::'' @ slavevol
       @ '' config '' @ config_key"
  "georep_config_set_cmd mastervol slaveip slavevol config val =
     ''gluster volume geo-replication '' @ mastervol @ '' '' @ slaveip @ ''::'' @ slavevol
       @ '' config '' @ config @ '' '' @ val"
  by (simp_all only: georep_ssh_copyid_cmd_def georep_groupadd_cmd_def
      georep_geoaccount_cmd_def georep_geoaccount_setpasswd_cmd_def
      georep_mountbroker_setup_cmd_def georep_mountbroker_adduser_cmd_def
      georep_set_pemkeys_cmd_def georep_config_get_cmd_def georep_config_set_cmd_def)

text \<open>The commands with an optional user: for a non-empty user, for no user, for the empty user.\<close>

lemma session_cmd_templates:
  "u \<noteq> [] \<Longrightarrow> georep_status_cmd mastervol slaveip slavevol (Some u) =
     ''gluster volume geo-replication '' @ mastervol @ '' '' @ u @ ''@'' @ slaveip @ ''::''
       @ slavevol @ '' status''"
  "u \<noteq> [] \<Longrightarrow> georep_create_cmd mastervol slaveip slavevol (Some u) force =
     ''gluster volume geo-replication '' @ mastervol @ '' '' @ u @ ''@'' @ slaveip @ ''::''
       @ slavevol @ (if force then '' create push-pem force'' else '' create push-pem'')"
  "u \<noteq> [] \<Longrightarrow> georep_start_cmd mastervol slaveip slavevol (Some u) force =
     ''gluster volume geo-replication '' @ mastervol @ '' '' @ u @ ''@'' @ slaveip @ ''::''
       @ slavevol @ (if force then '' start force'' else '' start'')"
  "u \<noteq> [] \<Longrightarrow> georep_stop_cmd mastervol slaveip slavevol (Some u) force =
     ''gluster volume geo-replication '' @ mastervol @ '' '' @ u @ ''@'' @ slaveip @ ''::''
       @ slavevol @ (if force then '' stop force'' else '' stop'')"
  "u \<noteq> [] \<Longrightarrow> georep_pause_cmd mastervol slaveip slavevol (Some u) =
     ''gluster volume geo-replication '' @ mastervol @ '' '' @ u @ ''@'' @ slaveip @ ''::''
       @ slavevol @ '' pause''"
  "u \<noteq> [] \<Longrightarrow> georep_resume_cmd mastervol slaveip slavevol (Some u) =
     ''gluster volume geo-replication '' @ mastervol @ '' '' @ u @ ''@'' @ slaveip @ ''::''
       @ slavevol @ '' resume''"
  "u \<noteq> [] \<Longrightarrow> georep_delete_cmd mastervol slaveip slavevol (Some u) =
     ''gluster volume geo-replication '' @ mastervol @ '' '' @ u @ ''@'' @ slaveip @ ''::''
       @ slavevol @ '' delete''"
  "georep_status_cmd mastervol slaveip slavevol None =
     ''gluster volume geo-replication '' @ mastervol @ '' '' @ slaveip @ ''::'' @ slavevol
       @ '' status''"
  "georep_create_cmd mastervol slaveip slavevol None force =
     ''gluster volume geo-replication '' @ mastervol @ '' '' @ slaveip @ ''::'' @ slavevol
       @ (if force then '' create push-pem force'' else '' create push-pem'')"
  "georep_start_cmd mastervol slaveip slavevol None force =
     ''gluster volume geo-replication '' @ mastervol @ '' '' @ slaveip @ ''::'' @ slavevol
       @ (if force then '' start force'' else '' start'')"
  "georep_stop_cmd mastervol slaveip slavevol None force =
     ''gluster volume geo-replication '' @ mastervol @ '' '' @ slaveip @ ''::'' @ slavevol
       @ (if force then '' stop force'' else '' stop'')"
  "georep_pause_cmd mastervol slaveip slavevol None =
     ''gluster volume geo-replication '' @ mastervol @ '' '' @ slaveip @ ''::'' @ slavevol
       @ '' pause''"
  "georep_resume_cmd mastervol slaveip slavevol None =
     ''gluster volume geo-replication '' @ mastervol @ '' '' @ slaveip @ ''::'' @ slavevol
       @ '' resume''"
  "georep_delete_cmd mastervol slaveip slavevol None =
     ''gluster volume geo-replication '' @ mastervol @ '' '' @ slaveip @ ''::'' @ slavevol
       @ '' delete''"
  "georep_status_cmd mastervol slaveip slavevol (Some []) =
     ''gluster volume geo-replication '' @ mastervol @ '' '' @ slaveip @ ''::'' @ slavevol
       @ '' status''"
  "georep_create_cmd mastervol slaveip slavevol (Some []) force =
     ''gluster volume geo-replication '' @ mastervol @ '' '' @ slaveip @ ''::'' @ slavevol
       @ (if force then '' create push-pem force'' else '' create push-pem'')"
  "georep_start_cmd mastervol slaveip slavevol (Some []) force =
     ''gluster volume geo-replication '' @ mastervol @ '' '' @ slaveip @ ''::'' @ slavevol
       @ (if force then '' start force'' else '' start'')"
  "georep_stop_cmd mastervol slaveip slavevol (Some []) force =
     ''gluster volume geo-replication '' @ mastervol @ '' '' @ slaveip @ ''::'' @ slavevol
       @ (if force then '' stop force'' else '' stop'')"
  "georep_pause_cmd mastervol slaveip slavevol (Some []) =
     ''gluster volume geo-replication '' @ mastervol @ '' '' @ slaveip @ ''::'' @ slavevol
       @ '' pause''"
  "georep_resume_cmd mastervol slaveip slavevol (Some []) =
     ''gluster volume geo-replication '' @ mastervol @ '' '' @ slaveip @ ''::'' @ slavevol
       @ '' resume''"
  "georep_delete_cmd mastervol slaveip slavevol (Some []) =
     ''gluster volume geo-replication '' @ mastervol @ '' '' @ slaveip @ ''::'' @ slavevol
       @ '' delete''"
  by (simp_all add: georep_status_cmd_def georep_create_cmd_def georep_start_cmd_def
      georep_stop_cmd_def georep_pause_cmd_def georep_resume_cmd_def georep_delete_cmd_def)

text \<open>The password is a substring of both password commands.\<close>

lemma passwd_in_cmds:
  "str_in passwd (georep_ssh_copyid_cmd tonode cuser passwd)"
  "str_in passwd (georep_geoaccount_setpasswd_cmd groupaccount passwd)"
  unfolding georep_ssh_copyid_cmd_def georep_geoaccount_setpasswd_cmd_def
  by (blast intro: str_in_self str_in_append_left str_in_append_right)+

text \<open>The password operation does not depend on its group name.\<close>

lemma setpasswd_ignores_groupname:
  "georep_geoaccount_setpasswd g servers groupname groupaccount passwd =
   georep_geoaccount_setpasswd g servers groupname' groupaccount passwd"
  by (simp only: georep_geoaccount_setpasswd_def)

text \<open>
  C9, amended. Every string argument for which a command template has a slot is put into
  the command unchanged, with nothing escaped, quoted or rewritten by the interpolation:
  each of the sixteen commands is exactly its fixed template text with the argument
  values in the slots, in the template's order. Not every caller-supplied parameter
  reaches the command: the node or server list only says where the command runs,
  \<open>force\<close> only selects the literal \<open>force\<close> token, an omitted or empty user is
  not interpolated, and the group name of the password operation is not used at all. The
  only quote characters next to an argument are the two literal double quotes that the
  template of the key propagation has around its password slot. For the key propagation
  and the password operation the plaintext password is a contiguous substring of the
  command handed to \<open>run\<close> and to \<open>run_parallel\<close>.
\<close>

theorem interpolated_parameters_exact_templates:
  "georep_ssh_copyid_cmd tonode cuser passwd =
     ''sshpass -p '' @ [CHR 0x22] @ passwd @ [CHR 0x22]
       @ '' ssh-copy-id -o StrictHostKeyChecking=no '' @ cuser @ ''@'' @ tonode
   \<and> georep_groupadd_cmd groupname = ''groupadd '' @ groupname
   \<and> georep_geoaccount_cmd groupname groupaccount =
     ''useradd -G '' @ groupname @ '' '' @ groupaccount
   \<and> georep_geoaccount_setpasswd_cmd groupaccount passwd =
     ''echo '' @ groupaccount @ '':'' @ passwd @ '' | chpasswd''
   \<and> georep_mountbroker_setup_cmd groupname directory =
     ''gluster-mountbroker setup '' @ directory @ '' '' @ groupname
   \<and> georep_mountbroker_adduser_cmd slavevol useraccount =
     ''gluster-mountbroker add '' @ slavevol @ '' '' @ useraccount
   \<and> georep_set_pemkeys_cmd useraccount mastervol slavevol =
     ''/usr/libexec/glusterfs/set_geo_rep_pem_keys.sh '' @ useraccount @ '' '' @ mastervol
       @ '' '' @ slavevol
   \<and> georep_config_get_cmd mastervol slaveip slavevol config_key =
     ''gluster volume geo-replication '' @ mastervol @ '' '' @ slaveip @ ''::'' @ slavevol
       @ '' config '' @ config_key
   \<and> georep_config_set_cmd mastervol slaveip slavevol config val =
     ''gluster volume geo-replication '' @ mastervol @ '' '' @ slaveip @ ''::'' @ slavevol
       @ '' config '' @ config @ '' '' @ val
   \<and> (u \<noteq> [] \<longrightarrow> georep_status_cmd mastervol slaveip slavevol (Some u) =
     ''gluster volume geo-replication '' @ mastervol @ '' '' @ u @ ''@'' @ slaveip @ ''::''
       @ slavevol @ '' status'')
   \<and> (u \<noteq> [] \<longrightarrow> georep_create_cmd mastervol slaveip slavevol (Some u) force =
     ''gluster volume geo-replication '' @ mastervol @ '' '' @ u @ ''@'' @ slaveip @ ''::''
       @ slavevol @ (if force then '' create push-pem force'' else '' create push-pem''))
   \<and> (u \<noteq> [] \<longrightarrow> georep_start_cmd mastervol slaveip slavevol (Some u) force =
     ''gluster volume geo-replication '' @ mastervol @ '' '' @ u @ ''@'' @ slaveip @ ''::''
       @ slavevol @ (if force then '' start force'' else '' start''))
   \<and> (u \<noteq> [] \<longrightarrow> georep_stop_cmd mastervol slaveip slavevol (Some u) force =
     ''gluster volume geo-replication '' @ mastervol @ '' '' @ u @ ''@'' @ slaveip @ ''::''
       @ slavevol @ (if force then '' stop force'' else '' stop''))
   \<and> (u \<noteq> [] \<longrightarrow> georep_pause_cmd mastervol slaveip slavevol (Some u) =
     ''gluster volume geo-replication '' @ mastervol @ '' '' @ u @ ''@'' @ slaveip @ ''::''
       @ slavevol @ '' pause'')
   \<and> (u \<noteq> [] \<longrightarrow> georep_resume_cmd mastervol slaveip slavevol (Some u) =
     ''gluster volume geo-replication '' @ mastervol @ '' '' @ u @ ''@'' @ slaveip @ ''::''
       @ slavevol @ '' resume'')
   \<and> (u \<noteq> [] \<longrightarrow> georep_delete_cmd mastervol slaveip slavevol (Some u) =
     ''gluster volume geo-replication '' @ mastervol @ '' '' @ u @ ''@'' @ slaveip @ ''::''
       @ slavevol @ '' delete'')
   \<and> georep_status_cmd mastervol slaveip slavevol None =
     ''gluster volume geo-replication '' @ mastervol @ '' '' @ slaveip @ ''::'' @ slavevol
       @ '' status''
   \<and> georep_create_cmd mastervol slaveip slavevol None force =
     ''gluster volume geo-replication '' @ mastervol @ '' '' @ slaveip @ ''::'' @ slavevol
       @ (if force then '' create push-pem force'' else '' create push-pem'')
   \<and> georep_start_cmd mastervol slaveip slavevol None force =
     ''gluster volume geo-replication '' @ mastervol @ '' '' @ slaveip @ ''::'' @ slavevol
       @ (if force then '' start force'' else '' start'')
   \<and> georep_stop_cmd mastervol slaveip slavevol None force =
     ''gluster volume geo-replication '' @ mastervol @ '' '' @ slaveip @ ''::'' @ slavevol
       @ (if force then '' stop force'' else '' stop'')
   \<and> georep_pause_cmd mastervol slaveip slavevol None =
     ''gluster volume geo-replication '' @ mastervol @ '' '' @ slaveip @ ''::'' @ slavevol
       @ '' pause''
   \<and> georep_resume_cmd mastervol slaveip slavevol None =
     ''gluster volume geo-replication '' @ mastervol @ '' '' @ slaveip @ ''::'' @ slavevol
       @ '' resume''
   \<and> georep_delete_cmd mastervol slaveip slavevol None =
     ''gluster volume geo-replication '' @ mastervol @ '' '' @ slaveip @ ''::'' @ slavevol
       @ '' delete''
   \<and> georep_status_cmd mastervol slaveip slavevol (Some []) =
     ''gluster volume geo-replication '' @ mastervol @ '' '' @ slaveip @ ''::'' @ slavevol
       @ '' status''
   \<and> georep_create_cmd mastervol slaveip slavevol (Some []) force =
     ''gluster volume geo-replication '' @ mastervol @ '' '' @ slaveip @ ''::'' @ slavevol
       @ (if force then '' create push-pem force'' else '' create push-pem'')
   \<and> georep_start_cmd mastervol slaveip slavevol (Some []) force =
     ''gluster volume geo-replication '' @ mastervol @ '' '' @ slaveip @ ''::'' @ slavevol
       @ (if force then '' start force'' else '' start'')
   \<and> georep_stop_cmd mastervol slaveip slavevol (Some []) force =
     ''gluster volume geo-replication '' @ mastervol @ '' '' @ slaveip @ ''::'' @ slavevol
       @ (if force then '' stop force'' else '' stop'')
   \<and> georep_pause_cmd mastervol slaveip slavevol (Some []) =
     ''gluster volume geo-replication '' @ mastervol @ '' '' @ slaveip @ ''::'' @ slavevol
       @ '' pause''
   \<and> georep_resume_cmd mastervol slaveip slavevol (Some []) =
     ''gluster volume geo-replication '' @ mastervol @ '' '' @ slaveip @ ''::'' @ slavevol
       @ '' resume''
   \<and> georep_delete_cmd mastervol slaveip slavevol (Some []) =
     ''gluster volume geo-replication '' @ mastervol @ '' '' @ slaveip @ ''::'' @ slavevol
       @ '' delete''
   \<and> georep_geoaccount_setpasswd g servers groupname groupaccount passwd =
       georep_geoaccount_setpasswd g servers groupname' groupaccount passwd
   \<and> georep_ssh_copyid g mnode tonode cuser passwd =
       (fst (run g mnode (georep_ssh_copyid_cmd tonode cuser passwd)) = 0)
   \<and> fst (georep_geoaccount_setpasswd g servers groupname groupaccount passwd) =
       (\<forall>(server, retcode, out, err)
           \<in> set (run_parallel g servers
                    (georep_geoaccount_setpasswd_cmd groupaccount passwd)).
          retcode = 0)
   \<and> str_in passwd (georep_ssh_copyid_cmd tonode cuser passwd)
   \<and> str_in passwd (georep_geoaccount_setpasswd_cmd groupaccount passwd)"
proof -
  have copyid: "georep_ssh_copyid g mnode tonode cuser passwd =
      (fst (run g mnode (georep_ssh_copyid_cmd tonode cuser passwd)) = 0)"
    by (cases "run g mnode (georep_ssh_copyid_cmd tonode cuser passwd)")
       (simp add: georep_ssh_copyid_def)
  have setp: "fst (georep_geoaccount_setpasswd g servers groupname groupaccount passwd) =
       (\<forall>(server, retcode, out, err)
           \<in> set (run_parallel g servers
                    (georep_geoaccount_setpasswd_cmd groupaccount passwd)).
          retcode = 0)"
    by (rule geoaccount_setpasswd_fst)
  have same: "georep_geoaccount_setpasswd g servers groupname groupaccount passwd =
       georep_geoaccount_setpasswd g servers groupname' groupaccount passwd"
    by (rule setpasswd_ignores_groupname)
  show ?thesis
    by (intro conjI impI;
        (fact copyid | fact setp | fact same | rule plain_cmd_templates
         | rule passwd_in_cmds | (rule session_cmd_templates, assumption)
         | rule session_cmd_templates))
qed

theorem interpolated_parameters_exact_templates_witness:
  "''geoaccount'' \<noteq> []
   \<and> georep_start_cmd ''mvol'' ''10.0.0.5'' ''svol'' (Some ''geoaccount'') True =
        ''gluster volume geo-replication mvol geoaccount@10.0.0.5::svol start force''
   \<and> georep_mountbroker_setup_cmd ''geogroup'' ''/var/mountbroker-root'' =
        ''gluster-mountbroker setup /var/mountbroker-root geogroup''
   \<and> georep_config_set_cmd ''mvol'' ''10.0.0.5'' ''svol'' ''sync-jobs'' ''3'' =
        ''gluster volume geo-replication mvol 10.0.0.5::svol config sync-jobs 3''
   \<and> georep_ssh_copyid_cmd ''slave1'' ''root'' ''p w$1'' =
        ''sshpass -p '' @ [CHR 0x22] @ ''p w$1'' @ [CHR 0x22]
          @ '' ssh-copy-id -o StrictHostKeyChecking=no root@slave1''
   \<and> str_in ''p w$1'' (georep_ssh_copyid_cmd ''slave1'' ''root'' ''p w$1'')
   \<and> georep_geoaccount_setpasswd_cmd ''geoaccount'' ''p w$1'' =
        ''echo geoaccount:p w$1 | chpasswd''
   \<and> str_in ''p w$1'' (georep_geoaccount_setpasswd_cmd ''geoaccount'' ''p w$1'')
   \<and> fst (georep_geoaccount_setpasswd (probe_executor ''p w$1'') [''slave1'']
            ''geogroup'' ''geoaccount'' ''p w$1'')"
proof -
  have h: "''geoaccount'' \<noteq> []" by simp
  note t = interpolated_parameters_exact_templates
        [where tonode = "''slave1''" and cuser = "''root''" and passwd = "''p w$1''"
           and groupaccount = "''geoaccount''" and groupname = "''geogroup''"
           and groupname' = "''othergroup''"
           and g = "probe_executor ''p w$1''"
           and mnode = "''master1''" and servers = "[''slave1'']"
           and mastervol = "''mvol''" and slaveip = "''10.0.0.5''" and slavevol = "''svol''"
           and u = "''geoaccount''" and force = True
           and directory = "''/var/mountbroker-root''" and useraccount = "''geoaccount''"
           and config_key = "''sync-jobs''" and config = "''sync-jobs''"
           and val = "''3''"]
  from t h have a: "georep_start_cmd ''mvol'' ''10.0.0.5'' ''svol'' (Some ''geoaccount'') True =
        ''gluster volume geo-replication mvol geoaccount@10.0.0.5::svol start force''"
    by simp
  from t have b: "georep_mountbroker_setup_cmd ''geogroup'' ''/var/mountbroker-root'' =
        ''gluster-mountbroker setup /var/mountbroker-root geogroup''"
    by simp
  from t have c: "georep_config_set_cmd ''mvol'' ''10.0.0.5'' ''svol'' ''sync-jobs'' ''3'' =
        ''gluster volume geo-replication mvol 10.0.0.5::svol config sync-jobs 3''"
    by simp
  from t have d: "georep_ssh_copyid_cmd ''slave1'' ''root'' ''p w$1'' =
        ''sshpass -p '' @ [CHR 0x22] @ ''p w$1'' @ [CHR 0x22]
          @ '' ssh-copy-id -o StrictHostKeyChecking=no root@slave1''"
    by simp
  from t have e: "str_in ''p w$1'' (georep_ssh_copyid_cmd ''slave1'' ''root'' ''p w$1'')"
    by blast
  from t have f: "georep_geoaccount_setpasswd_cmd ''geoaccount'' ''p w$1'' =
        ''echo geoaccount:p w$1 | chpasswd''"
    by simp
  from t have i:
    "str_in ''p w$1'' (georep_geoaccount_setpasswd_cmd ''geoaccount'' ''p w$1'')"
    by blast
  from t have "fst (georep_geoaccount_setpasswd (probe_executor ''p w$1'') [''slave1'']
            ''geogroup'' ''geoaccount'' ''p w$1'') =
       (\<forall>(server, retcode, out, err)
           \<in> set (run_parallel (probe_executor ''p w$1'') [''slave1'']
                    (georep_geoaccount_setpasswd_cmd ''geoaccount'' ''p w$1'')).
          retcode = 0)"
    by blast
  with f have j: "fst (georep_geoaccount_setpasswd (probe_executor ''p w$1'') [''slave1'']
            ''geogroup'' ''geoaccount'' ''p w$1'')"
    by (simp add: probe_executor_def)
  from h a b c d e f i j show ?thesis by blast
qed

end
